theory Spec2Isabelle
  imports Complex_Main "HOL-Library.AList"
begin

section \<open>Data model (shared/schema.ts)\<close>

text \<open>
  The enums of the schema become datatypes.  Two enums have a member \<open>ADMIN\<close> and two
  have a member \<open>COMPLETED\<close>; the members of \<open>Department\<close> and of \<open>SLAStatus\<close>
  carry a suffix to keep them apart.
\<close>

datatype UserRole = EMPLOYEE | DEPARTMENT | ADMIN

datatype IssueStatus =
  OPEN | IN_PROGRESS | PENDING | COMPLETED | VERIFIED | REJECTED | CLOSED | ESCALATED

datatype Department = IT | HR | ADMIN_dept | FINANCE | LEGAL

datatype SLAStatus = ON_TRACK | AT_RISK | BREACHED | COMPLETED_sla

text \<open>
  \<open>SLAPriority\<close> stays a string: \<open>createIssue\<close> tests the priority for truthiness and
  switches on it with a default branch, and the insert schema checks no more than that
  it is a string.
\<close>

definition LOW :: string where "LOW = ''low''"
definition MEDIUM :: string where "MEDIUM = ''medium''"
definition HIGH :: string where "HIGH = ''high''"
definition CRITICAL :: string where "CRITICAL = ''critical''"

text \<open>\<open>SLATimes\<close>: the hours allowed to each priority.\<close>

definition SLATimes :: "string \<rightharpoonup> int" where
  "SLATimes = [LOW \<mapsto> 48, MEDIUM \<mapsto> 24, HIGH \<mapsto> 8, CRITICAL \<mapsto> 4]"

text \<open>A \<open>Date\<close> is its time value: milliseconds since the epoch.\<close>

type_synonym date = int

record Comment =
  comment_id :: string
  comment_userId :: nat
  userName :: string
  comment_text :: string
  timestamp :: date

record User =
  user_id :: nat
  username :: string
  fullName :: string
  user_role :: UserRole
  user_department :: Department

record Issue =
  issue_id :: nat
  title :: string
  description :: string
  department :: Department
  status :: IssueStatus
  priority :: string
  reporterId :: nat
  assigneeId :: "nat option"
  createdAt :: "date option"
  updatedAt :: "date option"
  dueBy :: "date option"
  slaStatus :: SLAStatus
  isEscalated :: bool
  comments :: "Comment list"

text \<open>
  The \<open>details\<close> payload of an activity is a JSON object whose shape follows the action.
\<close>

datatype Details =
    Created_details string
  | Status_details IssueStatus IssueStatus
  | Assigned_details nat
  | Escalated_details string
  | Commented_details string
  | Department_details Department Department

record Activity =
  activity_id :: nat
  issueId :: nat
  userId :: nat
  action :: string
  details :: Details
  activity_createdAt :: "date option"

record InsertIssue =
  ins_title :: string
  ins_description :: string
  ins_department :: Department
  ins_status :: IssueStatus
  ins_priority :: string
  ins_reporterId :: nat

record InsertActivity =
  ins_issueId :: nat
  ins_userId :: nat
  ins_action :: string
  ins_details :: Details

section \<open>JavaScript numbers\<close>

text \<open>
  The quotient of two time differences and the counters of the analytics are JavaScript
  numbers.  A finite number is modelled by a real (the rounding of doubles is not
  modelled); the two infinities and \<open>NaN\<close> are values of their own, so that a division
  by zero and an addition to \<open>undefined\<close> give what JavaScript gives.
\<close>

datatype number = Fin real | PosInf | NegInf | NaN

definition js_div :: "real \<Rightarrow> real \<Rightarrow> number" where
  "js_div a b =
     (if b \<noteq> 0 then Fin (a / b)
      else if a = 0 then NaN
      else if 0 < a then PosInf else NegInf)"

fun js_mul :: "number \<Rightarrow> real \<Rightarrow> number" where
  "js_mul (Fin x) y = Fin (x * y)"
| "js_mul PosInf y = (if 0 < y then PosInf else if y < 0 then NegInf else NaN)"
| "js_mul NegInf y = (if 0 < y then NegInf else if y < 0 then PosInf else NaN)"
| "js_mul NaN y = NaN"

fun js_le :: "number \<Rightarrow> real \<Rightarrow> bool" where
  "js_le (Fin x) y = (x \<le> y)"
| "js_le PosInf y = False"
| "js_le NegInf y = True"
| "js_le NaN y = False"

fun js_add :: "number \<Rightarrow> real \<Rightarrow> number" where
  "js_add (Fin x) y = Fin (x + y)"
| "js_add PosInf y = PosInf"
| "js_add NegInf y = NegInf"
| "js_add NaN y = NaN"

section \<open>SLA calculator (server/storage.ts)\<close>

text \<open>
  \<open>calculateSlaStatus\<close> reads the clock once; the reading is the argument \<open>now\<close>.
  \<open>new Date(issue.createdAt!)\<close> of a missing \<open>createdAt\<close> is the epoch.
\<close>

definition getTime_createdAt :: "Issue \<Rightarrow> date" where
  "getTime_createdAt issue = (case createdAt issue of None \<Rightarrow> 0 | Some c \<Rightarrow> c)"

definition calculateSlaStatus :: "date \<Rightarrow> Issue \<Rightarrow> SLAStatus" where
  "calculateSlaStatus now issue =
     (case dueBy issue of
        None \<Rightarrow> ON_TRACK
      | Some dueDate \<Rightarrow>
          if status issue = VERIFIED \<or> status issue = CLOSED then COMPLETED_sla
          else if now > dueDate then BREACHED
          else
            let timeLeft = dueDate - now;
                totalTime = dueDate - getTime_createdAt issue;
                percentTimeLeft = js_mul (js_div (real_of_int timeLeft) (real_of_int totalTime)) 100
            in if js_le percentTimeLeft 25 then AT_RISK else ON_TRACK)"

section \<open>The in-memory store (server/storage.ts)\<close>

text \<open>
  A JavaScript \<open>Map\<close> keeps its keys in insertion order and \<open>set\<close> on a present key
  replaces the value in place: an association list with \<open>AList.update\<close>.  The session
  store is left out.
\<close>

record MemStorage =
  usersMap :: "(nat \<times> User) list"
  issuesMap :: "(nat \<times> Issue) list"
  activitiesMap :: "(nat \<times> Activity) list"
  userIdCounter :: nat
  issueIdCounter :: nat
  activityIdCounter :: nat

text \<open>
  A method that reads the clock in several places takes the readings as a function:
  \<open>clk n\<close> is what \<open>new Date()\<close> returns at the \<open>n\<close>-th such place of the method, in
  program order and counted from 0 (a loop gives one place to each round).  Nothing is
  assumed about the readings, not even that they grow.
\<close>

type_synonym clock = "nat \<Rightarrow> date"

definition later :: "nat \<Rightarrow> clock \<Rightarrow> clock" where
  "later k clk = (\<lambda>n. clk (n + k))"

definition createActivity :: "date \<Rightarrow> MemStorage \<Rightarrow> InsertActivity \<Rightarrow> MemStorage \<times> Activity" where
  "createActivity now s insertActivity =
     (let iid = activityIdCounter s;
          activity = \<lparr> activity_id = iid, issueId = ins_issueId insertActivity,
                       userId = ins_userId insertActivity, action = ins_action insertActivity,
                       details = ins_details insertActivity, activity_createdAt = Some now \<rparr>
      in (s\<lparr> activityIdCounter := iid + 1,
             activitiesMap := AList.update iid activity (activitiesMap s) \<rparr>, activity))"

subsection \<open>Local time of a \<open>Date\<close>\<close>

text \<open>
  \<open>getHours\<close> and \<open>setHours\<close> work on the wall-clock fields of the host's time zone.
  The zone is a parameter: \<open>LocalTZA_utc tz t\<close> is the offset of local time from UTC, in
  milliseconds, at the instant \<open>t\<close>, and \<open>LocalTZA_local tz t\<close> is the offset that the
  host gives to the wall-clock reading \<open>t\<close> (the two readings of \<open>LocalTZA\<close> in
  ECMAScript).  The functions below are those of ECMAScript's \<open>Date\<close>, on integers;
  \<open>TimeClip\<close>, the identity on every time value a \<open>Date\<close> can hold, is left out.
\<close>

record TimeZone =
  LocalTZA_utc :: "date \<Rightarrow> int"
  LocalTZA_local :: "date \<Rightarrow> int"

definition msPerSecond :: int where
  "msPerSecond = 1000"

definition msPerMinute :: int where
  "msPerMinute = 60000"

definition msPerHour :: int where
  "msPerHour = 3600000"

definition msPerDay :: int where
  "msPerDay = 86400000"

definition Day :: "date \<Rightarrow> int" where
  "Day t = t div msPerDay"

definition HourFromTime :: "date \<Rightarrow> int" where
  "HourFromTime t = (t div msPerHour) mod 24"

definition MinFromTime :: "date \<Rightarrow> int" where
  "MinFromTime t = (t div msPerMinute) mod 60"

definition SecFromTime :: "date \<Rightarrow> int" where
  "SecFromTime t = (t div msPerSecond) mod 60"

definition msFromTime :: "date \<Rightarrow> int" where
  "msFromTime t = t mod msPerSecond"

definition MakeTime :: "int \<Rightarrow> int \<Rightarrow> int \<Rightarrow> int \<Rightarrow> int" where
  "MakeTime hour minute sec ms =
     hour * msPerHour + minute * msPerMinute + sec * msPerSecond + ms"

definition MakeDate :: "int \<Rightarrow> int \<Rightarrow> date" where
  "MakeDate day time = day * msPerDay + time"

definition LocalTime :: "TimeZone \<Rightarrow> date \<Rightarrow> date" where
  "LocalTime tz t = t + LocalTZA_utc tz t"

definition UTC :: "TimeZone \<Rightarrow> date \<Rightarrow> date" where
  "UTC tz t = t - LocalTZA_local tz t"

definition getHours :: "TimeZone \<Rightarrow> date \<Rightarrow> int" where
  "getHours tz t = HourFromTime (LocalTime tz t)"

definition setHours :: "TimeZone \<Rightarrow> date \<Rightarrow> int \<Rightarrow> date" where
  "setHours tz t hour =
     (let l = LocalTime tz t;
          date = MakeDate (Day l)
                   (MakeTime hour (MinFromTime l) (SecFromTime l) (msFromTime l))
      in UTC tz date)"

subsection \<open>The methods of the store\<close>

definition hoursToAdd :: "string \<Rightarrow> int" where
  "hoursToAdd p =
     (if p = CRITICAL then 4
      else if p = HIGH then 8
      else if p = MEDIUM then 24
      else if p = LOW then 48
      else 24)"

definition createIssue ::
  "TimeZone \<Rightarrow> clock \<Rightarrow> MemStorage \<Rightarrow> InsertIssue \<Rightarrow> MemStorage \<times> Issue" where
  "createIssue tz clk s insertIssue =
     (let iid = issueIdCounter s;
          now = clk 0;
          due = (if ins_priority insertIssue \<noteq> []
                   then Some (setHours tz now
                                (getHours tz now + hoursToAdd (ins_priority insertIssue)))
                   else None);
          issue = \<lparr> issue_id = iid, title = ins_title insertIssue,
                    description = ins_description insertIssue,
                    department = ins_department insertIssue,
                    status = ins_status insertIssue,
                    priority = ins_priority insertIssue,
                    reporterId = ins_reporterId insertIssue,
                    assigneeId = None, createdAt = Some now, updatedAt = Some now,
                    dueBy = due, slaStatus = ON_TRACK, isEscalated = False,
                    comments = [] \<rparr>;
          s1 = s\<lparr> issueIdCounter := iid + 1,
                  issuesMap := AList.update iid issue (issuesMap s) \<rparr>;
          (s2, a) = createActivity (clk 1) s1
                      \<lparr> ins_issueId = iid, ins_userId = ins_reporterId insertIssue,
                        ins_action = ''created'',
                        ins_details = Created_details (ins_title insertIssue) \<rparr>
      in (s2, issue))"

definition getIssue :: "date \<Rightarrow> MemStorage \<Rightarrow> nat \<Rightarrow> MemStorage \<times> Issue option" where
  "getIssue now s iid =
     (case map_of (issuesMap s) iid of
        Some issue \<Rightarrow>
          let updatedIssue = issue\<lparr> slaStatus := calculateSlaStatus now issue \<rparr>
          in (s\<lparr> issuesMap := AList.update iid updatedIssue (issuesMap s) \<rparr>, Some updatedIssue)
      | None \<Rightarrow> (s, None))"

text \<open>
  \<open>getAllIssues\<close> walks a snapshot of the values, reading the clock once per issue, and
  stores an issue again (under its own \<open>id\<close> field) only when its SLA status changed.
\<close>

fun refreshAll :: "clock \<Rightarrow> Issue list \<Rightarrow> (nat \<times> Issue) list \<Rightarrow> (nat \<times> Issue) list" where
  "refreshAll clk [] m = m"
| "refreshAll clk (issue # issues) m =
     (let updatedSlaStatus = calculateSlaStatus (clk 0) issue;
          m' = (if slaStatus issue \<noteq> updatedSlaStatus
                then AList.update (issue_id issue) (issue\<lparr> slaStatus := updatedSlaStatus \<rparr>) m
                else m)
      in refreshAll (later 1 clk) issues m')"

definition getAllIssues :: "clock \<Rightarrow> MemStorage \<Rightarrow> MemStorage \<times> Issue list" where
  "getAllIssues clk s =
     (let m = refreshAll clk (map snd (issuesMap s)) (issuesMap s)
      in (s\<lparr> issuesMap := m \<rparr>, map snd m))"

definition updateIssueStatus ::
  "clock \<Rightarrow> MemStorage \<Rightarrow> nat \<Rightarrow> IssueStatus \<Rightarrow> MemStorage \<times> Issue option" where
  "updateIssueStatus clk s iid st =
     (case getIssue (clk 0) s iid of
        (s1, None) \<Rightarrow> (s1, None)
      | (s1, Some issue) \<Rightarrow>
          let now = clk 1;
              updatedIssue = issue\<lparr> status := st, updatedAt := Some now,
                slaStatus := (if st = VERIFIED \<or> st = CLOSED then COMPLETED_sla
                              else calculateSlaStatus (clk 2) (issue\<lparr> status := st \<rparr>)) \<rparr>
          in (s1\<lparr> issuesMap := AList.update iid updatedIssue (issuesMap s1) \<rparr>, Some updatedIssue))"

definition escalateIssue :: "clock \<Rightarrow> MemStorage \<Rightarrow> nat \<Rightarrow> MemStorage \<times> Issue option" where
  "escalateIssue clk s iid =
     (case getIssue (clk 0) s iid of
        (s1, None) \<Rightarrow> (s1, None)
      | (s1, Some issue) \<Rightarrow>
          let now = clk 1;
              updatedIssue = issue\<lparr> isEscalated := True, status := ESCALATED, updatedAt := Some now \<rparr>
          in (s1\<lparr> issuesMap := AList.update iid updatedIssue (issuesMap s1) \<rparr>, Some updatedIssue))"

text \<open>
  Modelled from the spec: \<open>updateIssueDepartment\<close> is called by the reassignment route,
  and neither \<open>IStorage\<close> nor \<open>MemStorage\<close> declares it.  Section 4.2 says of the operation
  that it "mutates \<open>department\<close>; does not change status", and section 3 that
  \<open>updatedAt\<close> is "bumped on every mutation".  The issue is loaded through \<open>getIssue\<close>,
  as every other update of the store does.
\<close>

definition updateIssueDepartment ::
  "clock \<Rightarrow> MemStorage \<Rightarrow> nat \<Rightarrow> Department \<Rightarrow> MemStorage \<times> Issue option" where
  "updateIssueDepartment clk s iid dept =
     (case getIssue (clk 0) s iid of
        (s1, None) \<Rightarrow> (s1, None)
      | (s1, Some issue) \<Rightarrow>
          let now = clk 1;
              updatedIssue = issue\<lparr> department := dept, updatedAt := Some now \<rparr>
          in (s1\<lparr> issuesMap := AList.update iid updatedIssue (issuesMap s1) \<rparr>, Some updatedIssue))"

subsection \<open>Analytics\<close>

text \<open>
  The result object starts with seven keys.  \<open>result[k] += 1\<close> on a key that is not there
  adds 1 to \<open>undefined\<close>, which is \<open>NaN\<close>.
\<close>

definition initialCounts :: "IssueStatus \<rightharpoonup> number" where
  "initialCounts =
     [OPEN \<mapsto> Fin 0, IN_PROGRESS \<mapsto> Fin 0, COMPLETED \<mapsto> Fin 0, VERIFIED \<mapsto> Fin 0,
      REJECTED \<mapsto> Fin 0, CLOSED \<mapsto> Fin 0, ESCALATED \<mapsto> Fin 0]"

definition increment :: "Issue \<Rightarrow> (IssueStatus \<rightharpoonup> number) \<Rightarrow> (IssueStatus \<rightharpoonup> number)" where
  "increment issue result =
     result(status issue \<mapsto> (case result (status issue) of None \<Rightarrow> NaN | Some v \<Rightarrow> js_add v 1))"

definition getIssueCountsByStatus ::
  "clock \<Rightarrow> MemStorage \<Rightarrow> MemStorage \<times> (IssueStatus \<rightharpoonup> number)" where
  "getIssueCountsByStatus clk s =
     (case getAllIssues clk s of (s1, issues) \<Rightarrow> (s1, fold increment issues initialCounts))"

section \<open>Route handlers (server/routes.ts)\<close>

text \<open>
  A handler takes the store, the session's user (\<open>None\<close> when the request is not
  authenticated) and the parameters of the request; it returns the store it leaves and
  the response: \<open>Inl\<close> of the HTTP status and message of an error, \<open>Inr\<close> of the JSON of
  a success.
\<close>

type_synonym 'a response = "(nat \<times> string) + 'a"

text \<open>
  The role checks that the status route and the escalation route make between loading
  the issue and calling the store: the error they answer with, or \<open>None\<close> when the
  request goes on.
\<close>

definition status_refused :: "User \<Rightarrow> Issue \<Rightarrow> IssueStatus \<Rightarrow> (nat \<times> string) option" where
  "status_refused user issue st =
     (if user_role user = EMPLOYEE then
        (if reporterId issue \<noteq> user_id user then Some (403, ''Access forbidden'')
         else if status issue \<noteq> COMPLETED \<or> (st \<noteq> VERIFIED \<and> st \<noteq> REJECTED)
           then Some (400, ''Invalid status transition'')
         else None)
      else if user_role user = DEPARTMENT then
        (if department issue \<noteq> user_department user then Some (403, ''Access forbidden'')
         else if st = IN_PROGRESS \<and> status issue = OPEN then None
         else if st = PENDING \<and> status issue = IN_PROGRESS then None
         else if st = COMPLETED \<and> (status issue = IN_PROGRESS \<or> status issue = PENDING)
           then None
         else Some (400, ''Invalid status transition''))
      else None)"

definition patch_status ::
  "clock \<Rightarrow> MemStorage \<Rightarrow> User option \<Rightarrow> nat \<Rightarrow> IssueStatus
     \<Rightarrow> MemStorage \<times> Issue option response" where
  "patch_status clk s reqUser iid st =
     (case reqUser of
        None \<Rightarrow> (s, Inl (401, ''Authentication required''))
      | Some user \<Rightarrow>
         (case getIssue (clk 0) s iid of
            (s1, None) \<Rightarrow> (s1, Inl (404, ''Issue not found''))
          | (s1, Some issue) \<Rightarrow>
             (case status_refused user issue st of
                Some e \<Rightarrow> (s1, Inl e)
              | None \<Rightarrow>
                 (case updateIssueStatus (later 1 clk) s1 iid st of (s2, updatedIssue) \<Rightarrow>
                  (case createActivity (clk 4) s2
                          \<lparr> ins_issueId = iid, ins_userId = user_id user,
                            ins_action = ''updated_status'',
                            ins_details = Status_details (status issue) st \<rparr> of
                     (s3, a) \<Rightarrow> (s3, Inr updatedIssue))))))"

definition escalate_refused :: "User \<Rightarrow> Issue \<Rightarrow> (nat \<times> string) option" where
  "escalate_refused user issue =
     (if user_role user = EMPLOYEE then
        (if reporterId issue \<noteq> user_id user then Some (403, ''Access forbidden'')
         else if isEscalated issue then Some (400, ''Issue is already escalated'')
         else if status issue = VERIFIED \<or> status issue = CLOSED
           then Some (400, ''Cannot escalate verified or closed issues'')
         else None)
      else if user_role user = DEPARTMENT then
        (if department issue \<noteq> user_department user then Some (403, ''Access forbidden'')
         else None)
      else None)"

definition patch_escalate ::
  "clock \<Rightarrow> MemStorage \<Rightarrow> User option \<Rightarrow> nat \<Rightarrow> string option
     \<Rightarrow> MemStorage \<times> Issue option response" where
  "patch_escalate clk s reqUser iid reason =
     (case reqUser of
        None \<Rightarrow> (s, Inl (401, ''Authentication required''))
      | Some user \<Rightarrow>
         (case getIssue (clk 0) s iid of
            (s1, None) \<Rightarrow> (s1, Inl (404, ''Issue not found''))
          | (s1, Some issue) \<Rightarrow>
             (case escalate_refused user issue of
                Some e \<Rightarrow> (s1, Inl e)
              | None \<Rightarrow>
                 (case escalateIssue (later 1 clk) s1 iid of (s2, updatedIssue) \<Rightarrow>
                  (case createActivity (clk 3) s2
                          \<lparr> ins_issueId = iid, ins_userId = user_id user,
                            ins_action = ''escalated'',
                            ins_details = Escalated_details
                              (case reason of
                                 None \<Rightarrow> ''Manual escalation''
                               | Some r \<Rightarrow> if r = [] then ''Manual escalation'' else r) \<rparr> of
                     (s3, a) \<Rightarrow> (s3, Inr updatedIssue))))))"

text \<open>
  \<open>requireRole\<close> (server/auth.ts) guards the reassignment route; the body's
  \<open>department\<close> is a string that must be a value of the \<open>Department\<close> enum.
\<close>

definition requireRole :: "UserRole list \<Rightarrow> User option \<Rightarrow> (nat \<times> string) option" where
  "requireRole roles reqUser =
     (case reqUser of
        None \<Rightarrow> Some (401, ''Authentication required'')
      | Some user \<Rightarrow>
          if user_role user \<notin> set roles then Some (403, ''Insufficient permissions'')
          else None)"

definition Department_value :: "Department \<Rightarrow> string" where
  "Department_value d =
     (case d of IT \<Rightarrow> ''IT'' | HR \<Rightarrow> ''HR'' | ADMIN_dept \<Rightarrow> ''Admin''
              | FINANCE \<Rightarrow> ''Finance'' | LEGAL \<Rightarrow> ''Legal'')"

definition Department_values :: "Department list" where
  "Department_values = [IT, HR, ADMIN_dept, FINANCE, LEGAL]"

definition patch_reassign_department ::
  "clock \<Rightarrow> MemStorage \<Rightarrow> User option \<Rightarrow> nat \<Rightarrow> string
     \<Rightarrow> MemStorage \<times> Issue option response" where
  "patch_reassign_department clk s reqUser iid dept =
     (case requireRole [ADMIN] reqUser of
        Some e \<Rightarrow> (s, Inl e)
      | None \<Rightarrow>
         (case find (\<lambda>d. Department_value d = dept) Department_values of
            None \<Rightarrow> (s, Inl (400, ''Valid department is required''))
          | Some d \<Rightarrow>
             (case getIssue (clk 0) s iid of
                (s1, None) \<Rightarrow> (s1, Inl (404, ''Issue not found''))
              | (s1, Some issue) \<Rightarrow>
                 if department issue = d
                 then (s1, Inl (400, ''Issue is already assigned to this department''))
                 else
                   (case updateIssueDepartment (later 1 clk) s1 iid d of (s2, updatedIssue) \<Rightarrow>
                    (case reqUser of
                       None \<Rightarrow> (s2, Inl (500, ''Failed to reassign department''))
                     | Some user \<Rightarrow>
                        (case createActivity (clk 3) s2
                                \<lparr> ins_issueId = iid, ins_userId = user_id user,
                                  ins_action = ''department_changed'',
                                  ins_details = Department_details (department issue) d \<rparr> of
                           (s3, a) \<Rightarrow> (s3, Inr updatedIssue)))))))"

section \<open>The edges of the specification and sample data\<close>

text \<open>
  The status edges that section 4.2 of the specification lists, written from its words:
  \<open>open -> in_progress\<close>; \<open>in_progress -> pending, completed\<close>;
  \<open>pending -> in_progress, completed\<close>; \<open>completed -> verified, rejected\<close>.
\<close>

fun listed_edge :: "IssueStatus \<Rightarrow> IssueStatus \<Rightarrow> bool" where
  "listed_edge OPEN IN_PROGRESS = True"
| "listed_edge IN_PROGRESS PENDING = True"
| "listed_edge IN_PROGRESS COMPLETED = True"
| "listed_edge PENDING IN_PROGRESS = True"
| "listed_edge PENDING COMPLETED = True"
| "listed_edge COMPLETED VERIFIED = True"
| "listed_edge COMPLETED REJECTED = True"
| "listed_edge _ _ = False"

text \<open>The three users that \<open>seedInitialData\<close> creates.\<close>

definition admin :: User where
  "admin = \<lparr> user_id = 1, username = ''admin'', fullName = ''Admin User'',
             user_role = ADMIN, user_department = IT \<rparr>"

definition itstaff :: User where
  "itstaff = \<lparr> user_id = 2, username = ''itstaff'', fullName = ''IT Staff'',
               user_role = DEPARTMENT, user_department = IT \<rparr>"

definition employee :: User where
  "employee = \<lparr> user_id = 3, username = ''employee'', fullName = ''Regular Employee'',
                user_role = EMPLOYEE, user_department = FINANCE \<rparr>"

definition seeded :: MemStorage where
  "seeded = \<lparr> usersMap = [(1, admin), (2, itstaff), (3, employee)], issuesMap = [],
              activitiesMap = [], userIdCounter = 4, issueIdCounter = 1,
              activityIdCounter = 1 \<rparr>"

text \<open>
  Two host zones.  \<open>fixed_offset c\<close> keeps the offset \<open>c\<close> at all times; with \<open>c = 0\<close>
  it is UTC.  \<open>new_york_march_2026\<close> is America/New_York around 8 March 2026: five hours
  behind UTC until 07:00 UTC of that day and four hours behind from then on, so the wall
  clock goes from 02:00 to 03:00; a wall-clock reading before 03:00 of that day gets the
  earlier offset.
\<close>

definition fixed_offset :: "int \<Rightarrow> TimeZone" where
  "fixed_offset c = \<lparr> LocalTZA_utc = (\<lambda>t. c), LocalTZA_local = (\<lambda>t. c) \<rparr>"

definition new_york_march_2026 :: TimeZone where
  "new_york_march_2026 =
     \<lparr> LocalTZA_utc = (\<lambda>t. if t < 1772953200000 then - 18000000 else - 14400000),
       LocalTZA_local = (\<lambda>t. if t < 1772938800000 then - 18000000 else - 14400000) \<rparr>"

text \<open>
  By how much the offset that the host gives to the wall-clock reading \<open>h\<close> hours after
  the one of the instant \<open>t\<close> differs from the offset at \<open>t\<close>.
\<close>

definition offset_change :: "TimeZone \<Rightarrow> date \<Rightarrow> int \<Rightarrow> int" where
  "offset_change tz t h =
     LocalTZA_local tz (t + LocalTZA_utc tz t + h * msPerHour) - LocalTZA_utc tz t"

text \<open>
  An issue of the IT department that the employee reported at time 0 with priority
  critical, as \<open>createIssue\<close> leaves it on a host in UTC, and the store that holds it
  alone.
\<close>

definition ticket :: Issue where
  "ticket = \<lparr> issue_id = 1, title = ''Laptop'', description = ''No boot'', department = IT,
              status = OPEN, priority = CRITICAL, reporterId = 3, assigneeId = None,
              createdAt = Some 0, updatedAt = Some 0, dueBy = Some 14400000,
              slaStatus = ON_TRACK, isEscalated = False, comments = [] \<rparr>"

definition holding :: "Issue \<Rightarrow> MemStorage" where
  "holding issue = seeded\<lparr> issuesMap := [(issue_id issue, issue)], issueIdCounter := 2 \<rparr>"

text \<open>The request that creates \<open>ticket\<close> in the seeded store at time 0.\<close>

definition request :: InsertIssue where
  "request = \<lparr> ins_title = ''Laptop'', ins_description = ''No boot'', ins_department = IT,
               ins_status = OPEN, ins_priority = CRITICAL, ins_reporterId = 3 \<rparr>"

text \<open>A clock that shows the same time at every reading.\<close>

definition stopped :: "date \<Rightarrow> clock" where
  "stopped t n = t"

section \<open>Reading and writing the store\<close>

lemma map_of_update_same: "map_of (AList.update k v al) k = Some v"
  by (simp add: update_conv')

lemma getIssue_found:
  "map_of (issuesMap s) iid = Some issue \<Longrightarrow>
   getIssue now s iid =
     (s\<lparr> issuesMap :=
          AList.update iid (issue\<lparr> slaStatus := calculateSlaStatus now issue \<rparr>) (issuesMap s) \<rparr>,
      Some (issue\<lparr> slaStatus := calculateSlaStatus now issue \<rparr>))"
  by (simp add: getIssue_def Let_def)

lemma getIssue_missing:
  "map_of (issuesMap s) iid = None \<Longrightarrow> getIssue now s iid = (s, None)"
  by (simp add: getIssue_def)

text \<open>The calculator reads three fields of the issue and nothing else.\<close>

lemma calculateSlaStatus_reads:
  "dueBy a = dueBy b \<Longrightarrow> status a = status b \<Longrightarrow> createdAt a = createdAt b \<Longrightarrow>
   calculateSlaStatus now a = calculateSlaStatus now b"
  by (cases "dueBy b") (simp_all add: calculateSlaStatus_def getTime_createdAt_def)

lemma updateIssueStatus_found:
  assumes "map_of (issuesMap s) iid = Some issue"
  shows "updateIssueStatus clk s iid st =
     (s\<lparr> issuesMap := AList.update iid
          (issue\<lparr> status := st, updatedAt := Some (clk 1),
             slaStatus := (if st = VERIFIED \<or> st = CLOSED then COMPLETED_sla
                           else calculateSlaStatus (clk 2) (issue\<lparr> status := st \<rparr>)) \<rparr>)
          (issuesMap s) \<rparr>,
      Some (issue\<lparr> status := st, updatedAt := Some (clk 1),
             slaStatus := (if st = VERIFIED \<or> st = CLOSED then COMPLETED_sla
                           else calculateSlaStatus (clk 2) (issue\<lparr> status := st \<rparr>)) \<rparr>))"
proof -
  have "calculateSlaStatus (clk 2) (issue\<lparr> slaStatus := x, status := st \<rparr>)
          = calculateSlaStatus (clk 2) (issue\<lparr> status := st \<rparr>)" for x
    by (rule calculateSlaStatus_reads) simp_all
  with assms show ?thesis
    by (simp add: updateIssueStatus_def getIssue_found Let_def)
qed

lemma updateIssueStatus_missing:
  "map_of (issuesMap s) iid = None \<Longrightarrow> updateIssueStatus clk s iid st = (s, None)"
  by (simp add: updateIssueStatus_def getIssue_missing)

lemma escalateIssue_found:
  "map_of (issuesMap s) iid = Some issue \<Longrightarrow>
   escalateIssue clk s iid =
     (s\<lparr> issuesMap := AList.update iid
          (issue\<lparr> slaStatus := calculateSlaStatus (clk 0) issue, isEscalated := True,
             status := ESCALATED, updatedAt := Some (clk 1) \<rparr>) (issuesMap s) \<rparr>,
      Some (issue\<lparr> slaStatus := calculateSlaStatus (clk 0) issue, isEscalated := True,
             status := ESCALATED, updatedAt := Some (clk 1) \<rparr>))"
  by (simp add: escalateIssue_def getIssue_found Let_def)

lemma updateIssueDepartment_found:
  "map_of (issuesMap s) iid = Some issue \<Longrightarrow>
   updateIssueDepartment clk s iid d =
     (s\<lparr> issuesMap := AList.update iid
          (issue\<lparr> slaStatus := calculateSlaStatus (clk 0) issue, department := d,
             updatedAt := Some (clk 1) \<rparr>) (issuesMap s) \<rparr>,
      Some (issue\<lparr> slaStatus := calculateSlaStatus (clk 0) issue, department := d,
             updatedAt := Some (clk 1) \<rparr>))"
  by (simp add: updateIssueDepartment_def getIssue_found Let_def)

subsection \<open>The sample data\<close>

lemma holding_ticket: "map_of (issuesMap (holding ticket)) 1 = Some ticket"
  by (simp add: holding_def ticket_def seeded_def)

lemma holding_updated:
  "issue_id issue = 1 \<Longrightarrow> map_of (issuesMap (holding issue)) 1 = Some issue"
  by (simp add: holding_def)

lemma ticket_on_track:
  "calculateSlaStatus 5 (ticket\<lparr> status := st \<rparr>) =
     (if st = VERIFIED \<or> st = CLOSED then COMPLETED_sla else ON_TRACK)"
  by (simp add: calculateSlaStatus_def ticket_def getTime_createdAt_def js_div_def Let_def)

section \<open>Deadline at creation\<close>

text \<open>
  Putting the hour field \<open>h\<close> hours ahead and keeping the other fields moves the
  wall-clock reading by exactly \<open>h\<close> hours.
\<close>

lemma time_fields:
  "MakeDate (Day l) (MakeTime (HourFromTime l + h) (MinFromTime l) (SecFromTime l) (msFromTime l))
     = l + h * msPerHour"
proof -
  have a: "l mod 60000 = 1000 * (l div 1000 mod 60) + l mod 1000"
    using zmod_zmult2_eq [where a = l and b = 1000 and c = 60] by simp
  have b: "l mod 3600000 = 60000 * (l div 60000 mod 60) + l mod 60000"
    using zmod_zmult2_eq [where a = l and b = 60000 and c = 60] by simp
  have c: "l mod 86400000 = 3600000 * (l div 3600000 mod 24) + l mod 3600000"
    using zmod_zmult2_eq [where a = l and b = 3600000 and c = 24] by simp
  have d: "l = l div 86400000 * 86400000 + l mod 86400000"
    by simp
  show ?thesis
    unfolding MakeDate_def MakeTime_def Day_def HourFromTime_def MinFromTime_def
      SecFromTime_def msFromTime_def msPerDay_def msPerHour_def msPerMinute_def msPerSecond_def
    using a b c d by (simp add: algebra_simps)
qed

text \<open>
  The instant that \<open>setHours(getHours() + h)\<close> leaves: \<open>h\<close> hours after \<open>t\<close>, less the
  change of the zone's offset.
\<close>

lemma setHours_getHours:
  "setHours tz t (getHours tz t + h) = t + h * msPerHour - offset_change tz t h"
  by (simp add: setHours_def getHours_def Let_def time_fields UTC_def LocalTime_def
        offset_change_def)

lemma offset_change_fixed: "offset_change (fixed_offset c) t h = 0"
  by (simp add: offset_change_def fixed_offset_def)

lemma offset_change_new_york:
  "offset_change new_york_march_2026 1772947800000 4 = 3600000"
  by (simp add: offset_change_def new_york_march_2026_def msPerHour_def)

lemma createIssue_fields:
  "createdAt (snd (createIssue tz clk s ins)) = Some (clk 0)
   \<and> status (snd (createIssue tz clk s ins)) = ins_status ins
   \<and> dueBy (snd (createIssue tz clk s ins)) =
       (if ins_priority ins \<noteq> []
        then Some (clk 0 + hoursToAdd (ins_priority ins) * msPerHour
                     - offset_change tz (clk 0) (hoursToAdd (ins_priority ins)))
        else None)"
  by (simp add: createIssue_def createActivity_def Let_def setHours_getHours
        split: prod.splits)

lemma ticket_created: "snd (createIssue (fixed_offset 0) (stopped 0) seeded request) = ticket"
  by (simp add: createIssue_def createActivity_def hoursToAdd_def Let_def msPerHour_def
        setHours_getHours offset_change_fixed
        request_def ticket_def seeded_def stopped_def CRITICAL_def split: prod.splits)

text \<open>
  Claim C5.  The claim fails on a host whose zone changes its offset between the creation
  and the wall-clock deadline.  \<open>createIssue\<close> sets \<open>createdAt\<close> to the first reading of
  the clock and moves the hour field of the local time by 4 hours for priority critical,
  8 for high, 24 for medium and 48 for low, so \<open>dueBy\<close> is \<open>createdAt\<close> plus those hours
  less the change of the zone's offset.  In a zone of fixed offset the change is 0 and
  \<open>dueBy\<close> is \<open>createdAt\<close> plus the hours of the claim.
\<close>

theorem createIssue_dueBy:
  "createdAt (snd (createIssue tz clk s ins)) = Some (clk 0)
   \<and> dueBy (snd (createIssue tz clk s (ins\<lparr> ins_priority := CRITICAL \<rparr>)))
       = Some (clk 0 + 4 * msPerHour - offset_change tz (clk 0) 4)
   \<and> dueBy (snd (createIssue tz clk s (ins\<lparr> ins_priority := HIGH \<rparr>)))
       = Some (clk 0 + 8 * msPerHour - offset_change tz (clk 0) 8)
   \<and> dueBy (snd (createIssue tz clk s (ins\<lparr> ins_priority := MEDIUM \<rparr>)))
       = Some (clk 0 + 24 * msPerHour - offset_change tz (clk 0) 24)
   \<and> dueBy (snd (createIssue tz clk s (ins\<lparr> ins_priority := LOW \<rparr>)))
       = Some (clk 0 + 48 * msPerHour - offset_change tz (clk 0) 48)
   \<and> offset_change (fixed_offset c) (clk 0) h = 0"
  by (simp add: createIssue_fields offset_change_fixed hoursToAdd_def
        CRITICAL_def HIGH_def MEDIUM_def LOW_def)

text \<open>
  On a host in UTC the deadline of a critical issue is four hours after its creation; in
  New York, for an issue created at 00:30 on 8 March 2026 (05:30 UTC), it is three hours
  after.
\<close>

theorem createIssue_dueBy_witness:
  "createdAt (snd (createIssue (fixed_offset 0) (stopped 1000) seeded request)) = Some 1000
   \<and> dueBy (snd (createIssue (fixed_offset 0) (stopped 1000) seeded request))
       = Some (1000 + 4 * 3600000)
   \<and> createdAt (snd (createIssue new_york_march_2026 (stopped 1772947800000) seeded request))
       = Some 1772947800000
   \<and> dueBy (snd (createIssue new_york_march_2026 (stopped 1772947800000) seeded request))
       = Some (1772947800000 + 3 * 3600000)"
proof -
  have r: "request\<lparr> ins_priority := CRITICAL \<rparr> = request"
    by (simp add: request_def)
  show ?thesis
    using createIssue_dueBy [of "fixed_offset 0" "stopped 1000" seeded request 0 4]
      createIssue_dueBy [of new_york_march_2026 "stopped 1772947800000" seeded request 0 4]
    by (simp add: r stopped_def msPerHour_def offset_change_new_york)
qed

text \<open>The hours that \<open>createIssue\<close> adds are those of the table \<open>SLATimes\<close>.\<close>

lemma hoursToAdd_SLATimes: "SLATimes p = Some h \<Longrightarrow> hoursToAdd p = h"
  by (auto simp add: SLATimes_def hoursToAdd_def LOW_def MEDIUM_def HIGH_def CRITICAL_def
        split: if_splits)

text \<open>A request whose priority is the empty string gets no deadline.\<close>

lemma createIssue_no_priority:
  "ins_priority ins = [] \<Longrightarrow> dueBy (snd (createIssue tz clk s ins)) = None"
  by (simp add: createIssue_fields)

section \<open>The SLA status\<close>

lemma calculateSlaStatus_no_dueBy:
  "dueBy issue = None \<Longrightarrow> calculateSlaStatus now issue = ON_TRACK"
  by (simp add: calculateSlaStatus_def)

lemma calculateSlaStatus_terminal:
  "dueBy issue = Some d \<Longrightarrow> status issue = VERIFIED \<or> status issue = CLOSED \<Longrightarrow>
   calculateSlaStatus now issue = COMPLETED_sla"
  by (auto simp: calculateSlaStatus_def)

lemma calculateSlaStatus_breached:
  "dueBy issue = Some d \<Longrightarrow> status issue \<noteq> VERIFIED \<Longrightarrow> status issue \<noteq> CLOSED \<Longrightarrow>
   d < now \<Longrightarrow> calculateSlaStatus now issue = BREACHED"
  by (simp add: calculateSlaStatus_def)

lemma calculateSlaStatus_percent:
  "dueBy issue = Some d \<Longrightarrow> status issue \<noteq> VERIFIED \<Longrightarrow> status issue \<noteq> CLOSED \<Longrightarrow>
   now \<le> d \<Longrightarrow> d \<noteq> getTime_createdAt issue \<Longrightarrow>
   calculateSlaStatus now issue =
     (if real_of_int (d - now) / real_of_int (d - getTime_createdAt issue) * 100 \<le> 25
      then AT_RISK else ON_TRACK)"
  by (simp add: calculateSlaStatus_def js_div_def Let_def)

text \<open>
  When \<open>dueBy\<close> equals \<open>createdAt\<close> the quotient is \<open>NaN\<close> or \<open>Infinity\<close>, and no
  comparison with 25 holds.
\<close>

lemma calculateSlaStatus_zero_span:
  "dueBy issue = Some d \<Longrightarrow> status issue \<noteq> VERIFIED \<Longrightarrow> status issue \<noteq> CLOSED \<Longrightarrow>
   now \<le> d \<Longrightarrow> d = getTime_createdAt issue \<Longrightarrow>
   calculateSlaStatus now issue = ON_TRACK"
  by (simp add: calculateSlaStatus_def js_div_def Let_def)

lemma created_critical:
  "dueBy (snd (createIssue tz clk s (ins\<lparr> ins_priority := CRITICAL \<rparr>)))
     = Some (clk 0 + 14400000 - offset_change tz (clk 0) 4)
   \<and> createdAt (snd (createIssue tz clk s (ins\<lparr> ins_priority := CRITICAL \<rparr>))) = Some (clk 0)
   \<and> status (snd (createIssue tz clk s (ins\<lparr> ins_priority := CRITICAL \<rparr>))) = ins_status ins"
  by (simp add: createIssue_fields hoursToAdd_def msPerHour_def CRITICAL_def)

lemma critical_scenario:
  assumes "dueBy issue = Some (t0 + 14400000)" "createdAt issue = Some t0"
    "status issue \<noteq> VERIFIED" "status issue \<noteq> CLOSED"
  shows "calculateSlaStatus (t0 + 11700000) issue = AT_RISK"
    and "calculateSlaStatus (t0 + 14460000) issue = BREACHED"
  using assms
  by (simp_all add: calculateSlaStatus_def js_div_def Let_def getTime_createdAt_def)

text \<open>
  The critical issue of New York's night of 8 March 2026, a quarter past three hours
  after its creation: its deadline was three hours after the creation, and it is
  breached.
\<close>

lemma critical_scenario_new_york:
  "calculateSlaStatus (1772947800000 + 11700000)
     (snd (createIssue new_york_march_2026 (stopped 1772947800000) seeded request)) = BREACHED"
proof -
  have r: "request\<lparr> ins_priority := CRITICAL \<rparr> = request" "ins_status request = OPEN"
    by (simp_all add: request_def)
  from created_critical [of new_york_march_2026 "stopped 1772947800000" seeded request]
  have "dueBy (snd (createIssue new_york_march_2026 (stopped 1772947800000) seeded request))
          = Some 1772958600000"
    and "status (snd (createIssue new_york_march_2026 (stopped 1772947800000) seeded request))
          = OPEN"
    by (simp_all add: r stopped_def offset_change_new_york)
  then show ?thesis
    by (simp add: calculateSlaStatus_breached)
qed

text \<open>
  Claim C6.  For an issue that has a \<open>dueBy\<close> and whose status is neither verified nor
  closed: after \<open>dueBy\<close> the SLA status is breached; up to \<open>dueBy\<close>, with
  \<open>percentLeft = (dueBy - now) / (dueBy - createdAt) * 100\<close>, it is at-risk when
  \<open>percentLeft \<le> 25\<close> and on-track otherwise (where \<open>dueBy = createdAt\<close> there is no
  such number, and the status is on-track).  An issue created with priority critical at
  \<open>T0\<close> and not verified or closed is at-risk at \<open>T0 + 3h15m\<close> and breached at
  \<open>T0 + 4h01m\<close> when the zone's offset does not change up to the wall-clock deadline.
  The scenario of the claim fails where it does change: in New York, created at 00:30 on
  8 March 2026, the issue is breached at \<open>T0 + 3h15m\<close>.
\<close>

theorem calculateSlaStatus_thresholds:
  "(dueBy issue = Some d \<and> status issue \<noteq> VERIFIED \<and> status issue \<noteq> CLOSED \<longrightarrow>
      (d < now \<longrightarrow> calculateSlaStatus now issue = BREACHED)
    \<and> (now \<le> d \<and> d \<noteq> getTime_createdAt issue \<longrightarrow>
         calculateSlaStatus now issue =
           (if real_of_int (d - now) / real_of_int (d - getTime_createdAt issue) * 100 \<le> 25
            then AT_RISK else ON_TRACK))
    \<and> (now \<le> d \<and> d = getTime_createdAt issue \<longrightarrow>
         calculateSlaStatus now issue = ON_TRACK))
   \<and> (ins_status ins \<noteq> VERIFIED \<and> ins_status ins \<noteq> CLOSED
        \<and> offset_change tz (clk 0) 4 = 0 \<longrightarrow>
        calculateSlaStatus (clk 0 + 3 * msPerHour + 15 * 60000)
          (snd (createIssue tz clk s (ins\<lparr> ins_priority := CRITICAL \<rparr>))) = AT_RISK
      \<and> calculateSlaStatus (clk 0 + 4 * msPerHour + 1 * 60000)
          (snd (createIssue tz clk s (ins\<lparr> ins_priority := CRITICAL \<rparr>))) = BREACHED)
   \<and> calculateSlaStatus (1772947800000 + 3 * msPerHour + 15 * 60000)
        (snd (createIssue new_york_march_2026 (stopped 1772947800000) seeded request))
        = BREACHED"
proof (intro conjI impI)
  assume "dueBy issue = Some d \<and> status issue \<noteq> VERIFIED \<and> status issue \<noteq> CLOSED"
    and "d < now"
  then show "calculateSlaStatus now issue = BREACHED"
    by (simp add: calculateSlaStatus_breached)
next
  assume "dueBy issue = Some d \<and> status issue \<noteq> VERIFIED \<and> status issue \<noteq> CLOSED"
    and "now \<le> d \<and> d \<noteq> getTime_createdAt issue"
  then show "calculateSlaStatus now issue =
      (if real_of_int (d - now) / real_of_int (d - getTime_createdAt issue) * 100 \<le> 25
       then AT_RISK else ON_TRACK)"
    by (intro calculateSlaStatus_percent) simp_all
next
  assume "dueBy issue = Some d \<and> status issue \<noteq> VERIFIED \<and> status issue \<noteq> CLOSED"
    and "now \<le> d \<and> d = getTime_createdAt issue"
  then show "calculateSlaStatus now issue = ON_TRACK"
    by (simp add: calculateSlaStatus_zero_span)
next
  assume a: "ins_status ins \<noteq> VERIFIED \<and> ins_status ins \<noteq> CLOSED
      \<and> offset_change tz (clk 0) 4 = 0"
  have e: "clk 0 + 3 * msPerHour + 15 * 60000 = clk 0 + 11700000"
    by (simp add: msPerHour_def)
  show "calculateSlaStatus (clk 0 + 3 * msPerHour + 15 * 60000)
          (snd (createIssue tz clk s (ins\<lparr> ins_priority := CRITICAL \<rparr>))) = AT_RISK"
    unfolding e using a created_critical [of tz clk s ins]
    by (intro critical_scenario(1)) simp_all
next
  assume a: "ins_status ins \<noteq> VERIFIED \<and> ins_status ins \<noteq> CLOSED
      \<and> offset_change tz (clk 0) 4 = 0"
  have e: "clk 0 + 4 * msPerHour + 1 * 60000 = clk 0 + 14460000"
    by (simp add: msPerHour_def)
  show "calculateSlaStatus (clk 0 + 4 * msPerHour + 1 * 60000)
          (snd (createIssue tz clk s (ins\<lparr> ins_priority := CRITICAL \<rparr>))) = BREACHED"
    unfolding e using a created_critical [of tz clk s ins]
    by (intro critical_scenario(2)) simp_all
next
  have e: "1772947800000 + 3 * msPerHour + 15 * 60000 = 1772947800000 + 11700000"
    by (simp add: msPerHour_def)
  show "calculateSlaStatus (1772947800000 + 3 * msPerHour + 15 * 60000)
        (snd (createIssue new_york_march_2026 (stopped 1772947800000) seeded request))
        = BREACHED"
    unfolding e by (rule critical_scenario_new_york)
qed

theorem calculateSlaStatus_thresholds_witness:
  "calculateSlaStatus 14460000 ticket = BREACHED
   \<and> calculateSlaStatus 11700000 ticket = AT_RISK
   \<and> calculateSlaStatus 3600000 ticket = ON_TRACK
   \<and> calculateSlaStatus 0 (ticket\<lparr> dueBy := Some 0 \<rparr>) = ON_TRACK
   \<and> calculateSlaStatus 11700000
        (snd (createIssue (fixed_offset 0) (stopped 0) seeded request)) = AT_RISK
   \<and> calculateSlaStatus 14460000
        (snd (createIssue (fixed_offset 0) (stopped 0) seeded request)) = BREACHED
   \<and> calculateSlaStatus 1772959500000
        (snd (createIssue new_york_march_2026 (stopped 1772947800000) seeded request))
        = BREACHED"
proof -
  have t: "dueBy ticket = Some 14400000 \<and> status ticket \<noteq> VERIFIED \<and> status ticket \<noteq> CLOSED"
    "getTime_createdAt ticket = 0"
    by (simp_all add: ticket_def getTime_createdAt_def)
  have z: "dueBy (ticket\<lparr> dueBy := Some 0 \<rparr>) = Some 0
      \<and> status (ticket\<lparr> dueBy := Some 0 \<rparr>) \<noteq> VERIFIED
      \<and> status (ticket\<lparr> dueBy := Some 0 \<rparr>) \<noteq> CLOSED"
    "getTime_createdAt (ticket\<lparr> dueBy := Some 0 \<rparr>) = 0"
    by (simp_all add: ticket_def getTime_createdAt_def)
  have r: "ins_status request \<noteq> VERIFIED \<and> ins_status request \<noteq> CLOSED"
    "request\<lparr> ins_priority := CRITICAL \<rparr> = request"
    by (simp_all add: request_def)
  show ?thesis
    using calculateSlaStatus_thresholds
        [of ticket 14400000 14460000 request "fixed_offset 0" "stopped 0" seeded]
      calculateSlaStatus_thresholds
        [of ticket 14400000 11700000 request "fixed_offset 0" "stopped 0" seeded]
      calculateSlaStatus_thresholds
        [of ticket 14400000 3600000 request "fixed_offset 0" "stopped 0" seeded]
      calculateSlaStatus_thresholds
        [of "ticket\<lparr> dueBy := Some 0 \<rparr>" 0 0 request "fixed_offset 0" "stopped 0" seeded]
    by (simp add: t z r stopped_def msPerHour_def offset_change_fixed)
qed

text \<open>
  Claim C1.  The claim fails where the issue has no \<open>dueBy\<close>: \<open>updateIssueStatus\<close>
  stores the SLA status completed with a verified issue, and the next read of that issue
  computes on-track and stores it, because \<open>calculateSlaStatus\<close> answers for a missing
  \<open>dueBy\<close> before it looks at the status.
\<close>

theorem verified_without_dueBy_reads_on_track:
  assumes "dueBy issue = None" and "map_of (issuesMap s) iid = Some issue"
  shows "calculateSlaStatus now (issue\<lparr> status := VERIFIED \<rparr>) = ON_TRACK
   \<and> map_option slaStatus (snd (updateIssueStatus clk s iid VERIFIED)) = Some COMPLETED_sla
   \<and> map_option status (snd (getIssue now (fst (updateIssueStatus clk s iid VERIFIED)) iid))
       = Some VERIFIED
   \<and> map_option slaStatus (snd (getIssue now (fst (updateIssueStatus clk s iid VERIFIED)) iid))
       = Some ON_TRACK"
  using assms
  by (simp add: updateIssueStatus_found getIssue_found map_of_update_same
        calculateSlaStatus_no_dueBy)

theorem verified_without_dueBy_reads_on_track_witness:
  "dueBy (snd (createIssue (fixed_offset 0) (stopped 0) seeded
            (request\<lparr> ins_priority := [] \<rparr>))) = None
   \<and> calculateSlaStatus 20 (ticket\<lparr> dueBy := None, status := VERIFIED \<rparr>) = ON_TRACK
   \<and> map_option slaStatus (snd (updateIssueStatus (stopped 10)
        (holding (ticket\<lparr> dueBy := None, status := COMPLETED \<rparr>)) 1 VERIFIED))
       = Some COMPLETED_sla
   \<and> map_option slaStatus (snd (getIssue 20 (fst (updateIssueStatus (stopped 10)
        (holding (ticket\<lparr> dueBy := None, status := COMPLETED \<rparr>)) 1 VERIFIED)) 1))
       = Some ON_TRACK"
proof -
  have d: "dueBy (ticket\<lparr> dueBy := None, status := COMPLETED \<rparr>) = None"
    by simp
  have h: "map_of (issuesMap (holding (ticket\<lparr> dueBy := None, status := COMPLETED \<rparr>))) 1
             = Some (ticket\<lparr> dueBy := None, status := COMPLETED \<rparr>)"
    by (rule holding_updated) (simp add: ticket_def)
  have c: "dueBy (snd (createIssue (fixed_offset 0) (stopped 0) seeded
                    (request\<lparr> ins_priority := [] \<rparr>))) = None"
    by (rule createIssue_no_priority) simp
  show ?thesis
    using verified_without_dueBy_reads_on_track [OF d h, of 20 "stopped 10"] c
    by simp
qed

section \<open>What a status update leaves alone\<close>

text \<open>
  Claim C10.  For a stored issue and any target status, \<open>updateIssueStatus\<close> returns and
  stores an issue with the new status and a new \<open>updatedAt\<close>, whose id, title,
  description, department, priority, reporter, assignee, \<open>createdAt\<close>, \<open>dueBy\<close>,
  escalation flag and comments are those of the issue found in the store; only
  \<open>status\<close>, \<open>slaStatus\<close> and \<open>updatedAt\<close> can differ.
\<close>

theorem updateIssueStatus_frame:
  assumes "map_of (issuesMap s) iid = Some issue"
  shows "\<exists>s' issue'. updateIssueStatus clk s iid st = (s', Some issue')
         \<and> map_of (issuesMap s') iid = Some issue'
         \<and> status issue' = st \<and> updatedAt issue' = Some (clk 1)
         \<and> issue_id issue' = issue_id issue
         \<and> title issue' = title issue \<and> description issue' = description issue
         \<and> department issue' = department issue \<and> priority issue' = priority issue
         \<and> reporterId issue' = reporterId issue \<and> assigneeId issue' = assigneeId issue
         \<and> createdAt issue' = createdAt issue \<and> dueBy issue' = dueBy issue
         \<and> isEscalated issue' = isEscalated issue \<and> comments issue' = comments issue"
  using assms
  by (simp add: updateIssueStatus_def getIssue_found map_of_update_same Let_def)

theorem updateIssueStatus_frame_witness:
  "\<exists>s' issue'. updateIssueStatus (stopped 5) (holding ticket) 1 COMPLETED = (s', Some issue')
     \<and> map_of (issuesMap s') 1 = Some issue'
     \<and> status issue' = COMPLETED \<and> title issue' = ''Laptop''
     \<and> dueBy issue' = Some 14400000 \<and> isEscalated issue' = False"
  using updateIssueStatus_frame [OF holding_ticket, of "stopped 5" COMPLETED]
  by (auto simp: ticket_def)

section \<open>The status route\<close>

text \<open>
  The checks do not look at the stored SLA status, so the refresh that \<open>getIssue\<close>
  makes before them does not change their answer.
\<close>

lemma status_refused_sla:
  "status_refused user (issue\<lparr> slaStatus := x \<rparr>) st = status_refused user issue st"
  by (simp add: status_refused_def cong: if_cong)

text \<open>
  A refused request leaves the store as the read left it: the issue has its SLA status
  recomputed, and nothing else is written.
\<close>

lemma patch_status_refused:
  "map_of (issuesMap s) iid = Some issue \<Longrightarrow>
   status_refused user issue st = Some e \<Longrightarrow>
   patch_status clk s (Some user) iid st =
     (s\<lparr> issuesMap := AList.update iid
           (issue\<lparr> slaStatus := calculateSlaStatus (clk 0) issue \<rparr>) (issuesMap s) \<rparr>, Inl e)"
  by (simp add: patch_status_def getIssue_found status_refused_sla)

lemma patch_status_passed:
  assumes "map_of (issuesMap s) iid = Some issue"
      and "status_refused user issue st = None"
  shows "patch_status clk s (Some user) iid st =
     (s\<lparr> issuesMap := AList.update iid
           (issue\<lparr> status := st, updatedAt := Some (clk 2),
              slaStatus := (if st = VERIFIED \<or> st = CLOSED then COMPLETED_sla
                            else calculateSlaStatus (clk 3) (issue\<lparr> status := st \<rparr>)) \<rparr>)
           (issuesMap s),
         activityIdCounter := activityIdCounter s + 1,
         activitiesMap := AList.update (activityIdCounter s)
           \<lparr> activity_id = activityIdCounter s, issueId = iid, userId = user_id user,
             action = ''updated_status'', details = Status_details (status issue) st,
             activity_createdAt = Some (clk 4) \<rparr> (activitiesMap s) \<rparr>,
      Inr (Some (issue\<lparr> status := st, updatedAt := Some (clk 2),
              slaStatus := (if st = VERIFIED \<or> st = CLOSED then COMPLETED_sla
                            else calculateSlaStatus (clk 3) (issue\<lparr> status := st \<rparr>)) \<rparr>)))"
proof -
  let ?issue1 = "issue\<lparr> slaStatus := calculateSlaStatus (clk 0) issue \<rparr>"
  let ?s1 = "s\<lparr> issuesMap := AList.update iid ?issue1 (issuesMap s) \<rparr>"
  have g: "getIssue (clk 0) s iid = (?s1, Some ?issue1)"
    using assms(1) by (rule getIssue_found)
  have f: "map_of (issuesMap ?s1) iid = Some ?issue1"
    by (simp add: map_of_update_same)
  have c: "calculateSlaStatus t (?issue1\<lparr> status := st \<rparr>)
             = calculateSlaStatus t (issue\<lparr> status := st \<rparr>)" for t
    by (rule calculateSlaStatus_reads) simp_all
  show ?thesis
    using assms(2)
    by (simp add: patch_status_def g status_refused_sla updateIssueStatus_found [OF f]
          createActivity_def Let_def later_def c del: One_nat_def)
qed

lemma listed_edge_iff:
  "listed_edge a b \<longleftrightarrow>
     (a = OPEN \<and> b = IN_PROGRESS) \<or> (a = IN_PROGRESS \<and> b = PENDING)
     \<or> (a = IN_PROGRESS \<and> b = COMPLETED) \<or> (a = PENDING \<and> b = IN_PROGRESS)
     \<or> (a = PENDING \<and> b = COMPLETED) \<or> (a = COMPLETED \<and> b = VERIFIED)
     \<or> (a = COMPLETED \<and> b = REJECTED)"
  by (cases a; cases b; simp)

lemma status_refused_reporter:
  assumes "user_role user = EMPLOYEE" "reporterId issue = user_id user"
    "\<not> listed_edge (status issue) st"
  shows "status_refused user issue st = Some (400, ''Invalid status transition'')"
proof -
  from assms(3) have "status issue \<noteq> COMPLETED \<or> (st \<noteq> VERIFIED \<and> st \<noteq> REJECTED)"
    by (simp add: listed_edge_iff)
  with assms(1,2) show ?thesis by (simp add: status_refused_def)
qed

lemma status_refused_staff:
  assumes "user_role user = DEPARTMENT" "department issue = user_department user"
    "\<not> listed_edge (status issue) st"
  shows "status_refused user issue st = Some (400, ''Invalid status transition'')"
proof -
  from assms(3) have
    "\<not> (st = IN_PROGRESS \<and> status issue = OPEN)"
    "\<not> (st = PENDING \<and> status issue = IN_PROGRESS)"
    "\<not> (st = COMPLETED \<and> (status issue = IN_PROGRESS \<or> status issue = PENDING))"
    by (simp_all add: listed_edge_iff) blast+
  with assms(1,2) show ?thesis by (simp add: status_refused_def)
qed

text \<open>
  The route checks nothing for an Admin, and answers 403 to an Employee who did not
  report the issue and to Department-Staff of another department.
\<close>

lemma status_refused_admin: "user_role user = ADMIN \<Longrightarrow> status_refused user issue st = None"
  by (simp add: status_refused_def)

lemma status_refused_forbidden:
  "(user_role user = EMPLOYEE \<and> reporterId issue \<noteq> user_id user)
   \<or> (user_role user = DEPARTMENT \<and> department issue \<noteq> user_department user) \<Longrightarrow>
   status_refused user issue st = Some (403, ''Access forbidden'')"
  by (auto simp add: status_refused_def)

text \<open>
  Claim C2, as stated, fails for an Admin: the route makes no check for that role, and
  the edge \<open>open -> completed\<close>, which the specification does not list, is applied.
\<close>

theorem admin_unlisted_edge_counterexample:
  "user_role admin = ADMIN \<and> status ticket = OPEN \<and> listed_edge OPEN COMPLETED = False
   \<and> snd (patch_status (stopped 5) (holding ticket) (Some admin) 1 COMPLETED)
        = Inr (Some (ticket\<lparr> status := COMPLETED, updatedAt := Some 5 \<rparr>))
   \<and> map_of (issuesMap (fst (patch_status (stopped 5) (holding ticket) (Some admin) 1 COMPLETED))) 1
        = Some (ticket\<lparr> status := COMPLETED, updatedAt := Some 5 \<rparr>)"
proof -
  have "status_refused admin ticket COMPLETED = None"
    by (simp add: status_refused_def admin_def)
  from patch_status_passed [OF holding_ticket this, of "stopped 5"]
  show ?thesis
    by (simp add: stopped_def ticket_on_track map_of_update_same)
      (simp add: ticket_def admin_def)
qed

text \<open>
  Claim C2, amended.  For the Employee who reported the issue and for a Department-Staff
  actor of the issue's department, a request whose pair of current and target status is
  not a listed edge is answered with 400 "Invalid status transition"; the store is left
  as the read of the issue left it, that is unchanged but for the recomputed SLA status
  of that issue.
\<close>

theorem patch_status_unlisted_edge_refused:
  assumes "map_of (issuesMap s) iid = Some issue"
      and "(user_role user = EMPLOYEE \<and> reporterId issue = user_id user)
           \<or> (user_role user = DEPARTMENT \<and> department issue = user_department user)"
      and "\<not> listed_edge (status issue) st"
  shows "patch_status clk s (Some user) iid st =
           (s\<lparr> issuesMap := AList.update iid
                 (issue\<lparr> slaStatus := calculateSlaStatus (clk 0) issue \<rparr>) (issuesMap s) \<rparr>,
            Inl (400, ''Invalid status transition''))"
proof -
  from assms(2,3) have "status_refused user issue st = Some (400, ''Invalid status transition'')"
    using status_refused_reporter status_refused_staff by blast
  with assms(1) show ?thesis by (rule patch_status_refused)
qed

theorem patch_status_unlisted_edge_refused_witness:
  "patch_status (stopped 5) (holding ticket) (Some employee) 1 COMPLETED
     = (holding ticket, Inl (400, ''Invalid status transition''))
   \<and> patch_status (stopped 5) (holding ticket) (Some itstaff) 1 COMPLETED
     = (holding ticket, Inl (400, ''Invalid status transition''))"
proof -
  have e: "(user_role employee = EMPLOYEE \<and> reporterId ticket = user_id employee)
           \<or> (user_role employee = DEPARTMENT \<and> department ticket = user_department employee)"
    by (simp add: employee_def ticket_def)
  have d: "(user_role itstaff = EMPLOYEE \<and> reporterId ticket = user_id itstaff)
           \<or> (user_role itstaff = DEPARTMENT \<and> department ticket = user_department itstaff)"
    by (simp add: itstaff_def ticket_def)
  have n: "\<not> listed_edge (status ticket) COMPLETED"
    by (simp add: ticket_def)
  have r: "holding ticket\<lparr> issuesMap := AList.update 1
      (ticket\<lparr> slaStatus := calculateSlaStatus (stopped 5 0) ticket \<rparr>)
      (issuesMap (holding ticket)) \<rparr> = holding ticket"
    using ticket_on_track [of OPEN]
    by (simp add: stopped_def holding_def ticket_def)
  show ?thesis
    using patch_status_unlisted_edge_refused [OF holding_ticket e n, of "stopped 5"]
      patch_status_unlisted_edge_refused [OF holding_ticket d n, of "stopped 5"]
    by (simp only: r)
qed

text \<open>
  The four edges that the route accepts from Department-Staff of the issue's department.
\<close>

lemma staff_other_edges_pass:
  assumes "user_role user = DEPARTMENT" and "department issue = user_department user"
  shows "status_refused user (issue\<lparr> status := OPEN \<rparr>) IN_PROGRESS = None"
    and "status_refused user (issue\<lparr> status := IN_PROGRESS \<rparr>) PENDING = None"
    and "status_refused user (issue\<lparr> status := IN_PROGRESS \<rparr>) COMPLETED = None"
    and "status_refused user (issue\<lparr> status := PENDING \<rparr>) COMPLETED = None"
  using assms by (simp_all add: status_refused_def)

text \<open>
  Claim C7.  The claim fails on the code: for a Department-Staff actor of the issue's
  department, the request from pending to in_progress is answered with 400 "Invalid
  status transition".
\<close>

theorem staff_pending_to_in_progress_refused:
  assumes "map_of (issuesMap s) iid = Some issue"
      and "user_role user = DEPARTMENT" and "department issue = user_department user"
      and "status issue = PENDING"
  shows "snd (patch_status clk s (Some user) iid IN_PROGRESS)
           = Inl (400, ''Invalid status transition'')"
proof -
  have "status_refused user issue IN_PROGRESS = Some (400, ''Invalid status transition'')"
    using assms(2-4) by (simp add: status_refused_def)
  with assms(1) show ?thesis by (simp add: patch_status_refused)
qed

theorem staff_pending_to_in_progress_refused_witness:
  "snd (patch_status (stopped 5) (holding (ticket\<lparr> status := PENDING \<rparr>)) (Some itstaff) 1
          IN_PROGRESS) = Inl (400, ''Invalid status transition'')"
proof -
  have h: "map_of (issuesMap (holding (ticket\<lparr> status := PENDING \<rparr>))) 1
             = Some (ticket\<lparr> status := PENDING \<rparr>)"
    by (rule holding_updated) (simp add: ticket_def)
  show ?thesis
    by (rule staff_pending_to_in_progress_refused [OF h])
      (simp_all add: itstaff_def ticket_def)
qed

section \<open>The escalation route\<close>

lemma escalate_refused_sla:
  "escalate_refused user (issue\<lparr> slaStatus := x \<rparr>) = escalate_refused user issue"
  by (simp add: escalate_refused_def cong: if_cong)

lemma patch_escalate_refused:
  "map_of (issuesMap s) iid = Some issue \<Longrightarrow>
   escalate_refused user issue = Some e \<Longrightarrow>
   patch_escalate clk s (Some user) iid reason =
     (s\<lparr> issuesMap := AList.update iid
           (issue\<lparr> slaStatus := calculateSlaStatus (clk 0) issue \<rparr>) (issuesMap s) \<rparr>, Inl e)"
  by (simp add: patch_escalate_def getIssue_found escalate_refused_sla)

lemma patch_escalate_passed:
  assumes "map_of (issuesMap s) iid = Some issue"
      and "escalate_refused user issue = None"
  shows "patch_escalate clk s (Some user) iid reason =
     (s\<lparr> issuesMap := AList.update iid
           (issue\<lparr> slaStatus := calculateSlaStatus (clk 1) issue, isEscalated := True,
              status := ESCALATED, updatedAt := Some (clk 2) \<rparr>) (issuesMap s),
         activityIdCounter := activityIdCounter s + 1,
         activitiesMap := AList.update (activityIdCounter s)
           \<lparr> activity_id = activityIdCounter s, issueId = iid, userId = user_id user,
             action = ''escalated'',
             details = Escalated_details
               (case reason of None \<Rightarrow> ''Manual escalation''
                | Some r \<Rightarrow> if r = [] then ''Manual escalation'' else r),
             activity_createdAt = Some (clk 3) \<rparr> (activitiesMap s) \<rparr>,
      Inr (Some (issue\<lparr> slaStatus := calculateSlaStatus (clk 1) issue, isEscalated := True,
              status := ESCALATED, updatedAt := Some (clk 2) \<rparr>)))"
proof -
  let ?issue1 = "issue\<lparr> slaStatus := calculateSlaStatus (clk 0) issue \<rparr>"
  let ?s1 = "s\<lparr> issuesMap := AList.update iid ?issue1 (issuesMap s) \<rparr>"
  have g: "getIssue (clk 0) s iid = (?s1, Some ?issue1)"
    using assms(1) by (rule getIssue_found)
  have f: "map_of (issuesMap ?s1) iid = Some ?issue1"
    by (simp add: map_of_update_same)
  have c: "calculateSlaStatus t ?issue1 = calculateSlaStatus t issue" for t
    by (rule calculateSlaStatus_reads) simp_all
  show ?thesis
    using assms(2)
    by (simp add: patch_escalate_def g escalate_refused_sla escalateIssue_found [OF f]
          createActivity_def Let_def later_def c del: One_nat_def)
qed

lemma escalate_refused_reporter_open:
  "user_role user = EMPLOYEE \<Longrightarrow> reporterId issue = user_id user \<Longrightarrow>
   \<not> isEscalated issue \<Longrightarrow> status issue \<noteq> VERIFIED \<Longrightarrow> status issue \<noteq> CLOSED \<Longrightarrow>
   escalate_refused user issue = None"
  by (simp add: escalate_refused_def)

lemma escalate_refused_admin: "user_role user = ADMIN \<Longrightarrow> escalate_refused user issue = None"
  by (simp add: escalate_refused_def)

lemma escalate_refused_staff:
  "user_role user = DEPARTMENT \<Longrightarrow> department issue = user_department user \<Longrightarrow>
   escalate_refused user issue = None"
  by (simp add: escalate_refused_def)

text \<open>
  Five milliseconds after its creation the reporter escalates an open issue that is on
  track: the SLA status is not breached, the status is not rejected, 48 hours have not
  passed, and the request succeeds.
\<close>

lemma reporter_escalates_fresh_issue:
  "user_role employee = EMPLOYEE \<and> reporterId ticket = user_id employee
   \<and> isEscalated ticket = False \<and> status ticket = OPEN
   \<and> calculateSlaStatus 5 ticket = ON_TRACK
   \<and> createdAt ticket = Some 0 \<and> (48 * msPerHour < 5 - 0) = False
   \<and> snd (patch_escalate (stopped 5) (holding ticket) (Some employee) 1 None)
        = Inr (Some (ticket\<lparr> isEscalated := True, status := ESCALATED, updatedAt := Some 5 \<rparr>))"
proof -
  have "escalate_refused employee ticket = None"
    by (simp add: escalate_refused_def employee_def ticket_def)
  from patch_escalate_passed [OF holding_ticket this, of "stopped 5" None]
  show ?thesis
    using ticket_on_track [of OPEN]
    by (simp add: stopped_def) (simp add: ticket_def employee_def msPerHour_def)
qed

text \<open>
  Claim C3.  The claim fails on the code in its "only if" half.  The employee branch of
  the route makes none of the three tests; its comment reads "For testing purposes, allow
  escalation without time restrictions.  In production, we'd check SLA or time-based
  conditions".  So for the Employee who reported an issue that is not escalated and
  neither verified nor closed, the escalation request succeeds whatever the SLA status,
  the status and the age of the issue: the issue returned and stored has the flag set and
  the status escalated.
\<close>

theorem reporter_escalate_ungated:
  assumes "map_of (issuesMap s) iid = Some issue"
      and "user_role user = EMPLOYEE" and "reporterId issue = user_id user"
      and "\<not> isEscalated issue" and "status issue \<noteq> VERIFIED" and "status issue \<noteq> CLOSED"
  shows "\<exists>s' issue'. patch_escalate clk s (Some user) iid reason = (s', Inr (Some issue'))
           \<and> map_of (issuesMap s') iid = Some issue'
           \<and> isEscalated issue' \<and> status issue' = ESCALATED"
proof -
  have "escalate_refused user issue = None"
    using assms(2-6) by (rule escalate_refused_reporter_open)
  from patch_escalate_passed [OF assms(1) this, of clk reason]
  show ?thesis by (simp add: map_of_update_same)
qed

theorem reporter_escalate_ungated_witness:
  "\<exists>s' issue'. patch_escalate (stopped 5) (holding ticket) (Some employee) 1 None
                  = (s', Inr (Some issue'))
     \<and> map_of (issuesMap s') 1 = Some issue'
     \<and> isEscalated issue' \<and> status issue' = ESCALATED"
  by (rule reporter_escalate_ungated [OF holding_ticket])
    (simp_all add: employee_def ticket_def)

text \<open>
  Claim C4, as stated, fails for an Admin: the route checks the flag and the terminal
  statuses for the Employee role only.  An Admin's request on an escalated issue and on
  a verified issue both succeed.
\<close>

theorem staff_escalate_unchecked_counterexample:
  "user_role admin = ADMIN
   \<and> isEscalated (ticket\<lparr> isEscalated := True, status := ESCALATED \<rparr>) = True
   \<and> snd (patch_escalate (stopped 5) (holding (ticket\<lparr> isEscalated := True, status := ESCALATED \<rparr>))
            (Some admin) 1 None)
        = Inr (Some (ticket\<lparr> isEscalated := True, status := ESCALATED, updatedAt := Some 5 \<rparr>))
   \<and> status (ticket\<lparr> status := VERIFIED \<rparr>) = VERIFIED
   \<and> snd (patch_escalate (stopped 5) (holding (ticket\<lparr> status := VERIFIED \<rparr>)) (Some admin) 1 None)
        = Inr (Some (ticket\<lparr> slaStatus := COMPLETED_sla, isEscalated := True,
                      status := ESCALATED, updatedAt := Some 5 \<rparr>))"
proof -
  have a: "user_role admin = ADMIN" by (simp add: admin_def)
  have h1: "map_of (issuesMap (holding (ticket\<lparr> isEscalated := True, status := ESCALATED \<rparr>))) 1
             = Some (ticket\<lparr> isEscalated := True, status := ESCALATED \<rparr>)"
    by (rule holding_updated) (simp add: ticket_def)
  have h2: "map_of (issuesMap (holding (ticket\<lparr> status := VERIFIED \<rparr>))) 1
             = Some (ticket\<lparr> status := VERIFIED \<rparr>)"
    by (rule holding_updated) (simp add: ticket_def)
  have c1: "calculateSlaStatus 5 (ticket\<lparr> isEscalated := True, status := ESCALATED \<rparr>) = ON_TRACK"
    using ticket_on_track [of ESCALATED]
      calculateSlaStatus_reads [of "ticket\<lparr> isEscalated := True, status := ESCALATED \<rparr>"
        "ticket\<lparr> status := ESCALATED \<rparr>" 5]
    by simp
  have t: "slaStatus ticket = ON_TRACK" by (simp add: ticket_def)
  show ?thesis
    using patch_escalate_passed [OF h1 escalate_refused_admin [OF a], of "stopped 5" None]
      patch_escalate_passed [OF h2 escalate_refused_admin [OF a], of "stopped 5" None]
      ticket_on_track [of VERIFIED] c1 t
    by (simp add: stopped_def a)
qed

text \<open>
  Claim C4, amended.  For the Employee who reported the issue: when the issue is already
  escalated the request is answered with 400 "Issue is already escalated"; when it is not
  escalated and its status is verified or closed, with 400 "Cannot escalate verified or
  closed issues".  In both cases the store is left as the read of the issue left it:
  unchanged but for the recomputed SLA status of that issue.
\<close>

theorem reporter_escalate_refusals:
  assumes "map_of (issuesMap s) iid = Some issue"
      and "user_role user = EMPLOYEE" and "reporterId issue = user_id user"
  shows "(isEscalated issue \<longrightarrow>
            patch_escalate clk s (Some user) iid reason =
              (s\<lparr> issuesMap := AList.update iid
                    (issue\<lparr> slaStatus := calculateSlaStatus (clk 0) issue \<rparr>) (issuesMap s) \<rparr>,
               Inl (400, ''Issue is already escalated'')))
       \<and> (\<not> isEscalated issue \<and> (status issue = VERIFIED \<or> status issue = CLOSED) \<longrightarrow>
            patch_escalate clk s (Some user) iid reason =
              (s\<lparr> issuesMap := AList.update iid
                    (issue\<lparr> slaStatus := calculateSlaStatus (clk 0) issue \<rparr>) (issuesMap s) \<rparr>,
               Inl (400, ''Cannot escalate verified or closed issues'')))"
proof (intro conjI impI)
  assume "isEscalated issue"
  with assms(2,3) have "escalate_refused user issue = Some (400, ''Issue is already escalated'')"
    by (simp add: escalate_refused_def)
  with assms(1) show "patch_escalate clk s (Some user) iid reason =
      (s\<lparr> issuesMap := AList.update iid
            (issue\<lparr> slaStatus := calculateSlaStatus (clk 0) issue \<rparr>) (issuesMap s) \<rparr>,
       Inl (400, ''Issue is already escalated''))"
    by (rule patch_escalate_refused)
next
  assume "\<not> isEscalated issue \<and> (status issue = VERIFIED \<or> status issue = CLOSED)"
  with assms(2,3) have
    "escalate_refused user issue = Some (400, ''Cannot escalate verified or closed issues'')"
    by (simp add: escalate_refused_def)
  with assms(1) show "patch_escalate clk s (Some user) iid reason =
      (s\<lparr> issuesMap := AList.update iid
            (issue\<lparr> slaStatus := calculateSlaStatus (clk 0) issue \<rparr>) (issuesMap s) \<rparr>,
       Inl (400, ''Cannot escalate verified or closed issues''))"
    by (rule patch_escalate_refused)
qed

theorem reporter_escalate_refusals_witness:
  "patch_escalate (stopped 5) (holding (ticket\<lparr> isEscalated := True, status := ESCALATED \<rparr>))
       (Some employee) 1 None
     = (holding (ticket\<lparr> isEscalated := True, status := ESCALATED \<rparr>),
        Inl (400, ''Issue is already escalated''))
   \<and> patch_escalate (stopped 5) (holding (ticket\<lparr> status := VERIFIED \<rparr>)) (Some employee) 1 None
     = (holding (ticket\<lparr> status := VERIFIED, slaStatus := COMPLETED_sla \<rparr>),
        Inl (400, ''Cannot escalate verified or closed issues''))"
proof -
  have h1: "map_of (issuesMap (holding (ticket\<lparr> isEscalated := True, status := ESCALATED \<rparr>))) 1
             = Some (ticket\<lparr> isEscalated := True, status := ESCALATED \<rparr>)"
    by (rule holding_updated) (simp add: ticket_def)
  have h2: "map_of (issuesMap (holding (ticket\<lparr> status := VERIFIED \<rparr>))) 1
             = Some (ticket\<lparr> status := VERIFIED \<rparr>)"
    by (rule holding_updated) (simp add: ticket_def)
  have e: "user_role employee = EMPLOYEE" by (simp add: employee_def)
  have r1: "reporterId (ticket\<lparr> isEscalated := True, status := ESCALATED \<rparr>) = user_id employee"
    and r2: "reporterId (ticket\<lparr> status := VERIFIED \<rparr>) = user_id employee"
    by (simp_all add: employee_def ticket_def)
  have c1: "calculateSlaStatus 5 (ticket\<lparr> isEscalated := True, status := ESCALATED \<rparr>) = ON_TRACK"
    using ticket_on_track [of ESCALATED]
      calculateSlaStatus_reads [of "ticket\<lparr> isEscalated := True, status := ESCALATED \<rparr>"
        "ticket\<lparr> status := ESCALATED \<rparr>" 5]
    by simp
  have t: "slaStatus ticket = ON_TRACK" "issue_id ticket = 1" "\<not> isEscalated ticket"
    by (simp_all add: ticket_def)
  show ?thesis
    using reporter_escalate_refusals [OF h1 e r1, of "stopped 5" None]
      reporter_escalate_refusals [OF h2 e r2, of "stopped 5" None]
      ticket_on_track [of VERIFIED] c1 t
    by (simp add: stopped_def holding_def)
qed

section \<open>The reassignment route\<close>

lemma find_Department_value:
  "find (\<lambda>x. Department_value x = Department_value d) Department_values = Some d"
  by (cases d) (simp_all add: Department_value_def Department_values_def)

lemma patch_reassign_department_passed:
  assumes "map_of (issuesMap s) iid = Some issue"
      and "user_role user = ADMIN" and "department issue \<noteq> d"
  shows "patch_reassign_department clk s (Some user) iid (Department_value d) =
     (s\<lparr> issuesMap := AList.update iid
           (issue\<lparr> slaStatus := calculateSlaStatus (clk 1) issue, department := d,
              updatedAt := Some (clk 2) \<rparr>) (issuesMap s),
         activityIdCounter := activityIdCounter s + 1,
         activitiesMap := AList.update (activityIdCounter s)
           \<lparr> activity_id = activityIdCounter s, issueId = iid, userId = user_id user,
             action = ''department_changed'',
             details = Department_details (department issue) d,
             activity_createdAt = Some (clk 3) \<rparr> (activitiesMap s) \<rparr>,
      Inr (Some (issue\<lparr> slaStatus := calculateSlaStatus (clk 1) issue, department := d,
              updatedAt := Some (clk 2) \<rparr>)))"
proof -
  let ?issue1 = "issue\<lparr> slaStatus := calculateSlaStatus (clk 0) issue \<rparr>"
  let ?s1 = "s\<lparr> issuesMap := AList.update iid ?issue1 (issuesMap s) \<rparr>"
  have g: "getIssue (clk 0) s iid = (?s1, Some ?issue1)"
    using assms(1) by (rule getIssue_found)
  have f: "map_of (issuesMap ?s1) iid = Some ?issue1"
    by (simp add: map_of_update_same)
  have c: "calculateSlaStatus t ?issue1 = calculateSlaStatus t issue" for t
    by (rule calculateSlaStatus_reads) simp_all
  have r: "requireRole [ADMIN] (Some user) = None"
    using assms(2) by (simp add: requireRole_def)
  show ?thesis
    using assms(3)
    by (simp add: patch_reassign_department_def r find_Department_value g
          updateIssueDepartment_found [OF f] createActivity_def Let_def later_def c
          del: One_nat_def)
qed

lemma update_fresh: "k \<notin> fst ` set al \<Longrightarrow> AList.update k v al = al @ [(k, v)]"
  by (induction al) auto

text \<open>
  Claim C9.  For an Admin, a stored issue and a department of the enum other than the
  issue's, the reassignment succeeds: the issue returned and stored has the new
  department, its status and its escalation flag are those it had, and an activity
  \<open>department_changed\<close> with the old and the new department is stored under the next
  activity id (at the end of the activities when that id is fresh).
\<close>

theorem reassign_department_effect:
  assumes "map_of (issuesMap s) iid = Some issue"
      and "user_role user = ADMIN" and "d \<noteq> department issue"
  shows "\<exists>s' issue'.
           patch_reassign_department clk s (Some user) iid (Department_value d)
             = (s', Inr (Some issue'))
         \<and> map_of (issuesMap s') iid = Some issue'
         \<and> department issue' = d
         \<and> status issue' = status issue \<and> isEscalated issue' = isEscalated issue
         \<and> map_of (activitiesMap s') (activityIdCounter s) =
             Some \<lparr> activity_id = activityIdCounter s, issueId = iid, userId = user_id user,
                    action = ''department_changed'',
                    details = Department_details (department issue) d,
                    activity_createdAt = Some (clk 3) \<rparr>
         \<and> (activityIdCounter s \<notin> fst ` set (activitiesMap s) \<longrightarrow>
              activitiesMap s' = activitiesMap s @
                [(activityIdCounter s,
                  \<lparr> activity_id = activityIdCounter s, issueId = iid, userId = user_id user,
                    action = ''department_changed'',
                    details = Department_details (department issue) d,
                    activity_createdAt = Some (clk 3) \<rparr>)])"
proof -
  from assms(3) have "department issue \<noteq> d" by simp
  from patch_reassign_department_passed [OF assms(1,2) this, of clk]
  show ?thesis by (simp add: map_of_update_same update_fresh)
qed

theorem reassign_department_effect_witness:
  "\<exists>s' issue'.
     patch_reassign_department (stopped 5)
         (holding (ticket\<lparr> isEscalated := True, status := ESCALATED \<rparr>)) (Some admin) 1 ''HR''
       = (s', Inr (Some issue'))
     \<and> map_of (issuesMap s') 1 = Some issue'
     \<and> department issue' = HR \<and> status issue' = ESCALATED \<and> isEscalated issue' = True
     \<and> activitiesMap s' =
          [(1, \<lparr> activity_id = 1, issueId = 1, userId = 1, action = ''department_changed'',
                 details = Department_details IT HR, activity_createdAt = Some 5 \<rparr>)]"
proof -
  have h: "map_of (issuesMap (holding (ticket\<lparr> isEscalated := True, status := ESCALATED \<rparr>))) 1
             = Some (ticket\<lparr> isEscalated := True, status := ESCALATED \<rparr>)"
    by (rule holding_updated) (simp add: ticket_def)
  have a: "user_role admin = ADMIN" by (simp add: admin_def)
  have d: "HR \<noteq> department (ticket\<lparr> isEscalated := True, status := ESCALATED \<rparr>)"
    by (simp add: ticket_def)
  have v: "Department_value HR = ''HR''" by (simp add: Department_value_def)
  show ?thesis
    using reassign_department_effect [OF h a d, of "stopped 5"]
    by (simp add: v) (auto simp add: holding_def seeded_def admin_def ticket_def stopped_def)
qed

section \<open>Counts by status\<close>

lemma initialCounts_PENDING: "initialCounts PENDING = None"
  by (simp add: initialCounts_def)

lemma initialCounts_other: "k \<noteq> PENDING \<Longrightarrow> initialCounts k = Some (Fin 0)"
  by (cases k) (simp_all add: initialCounts_def)

lemma increment_at:
  "increment i m k =
     (if status i = k then Some (case m k of None \<Rightarrow> NaN | Some v \<Rightarrow> js_add v 1) else m k)"
  by (auto simp add: increment_def)

lemma fold_increment_counted:
  "m k = Some (Fin c) \<Longrightarrow>
   fold increment issues m k
     = Some (Fin (c + real (length (filter (\<lambda>i. status i = k) issues))))"
proof (induction issues arbitrary: m c)
  case Nil
  then show ?case by simp
next
  case (Cons i issues)
  show ?case
  proof (cases "status i = k")
    case True
    with Cons.prems have "increment i m k = Some (Fin (c + 1))"
      by (simp add: increment_at)
    with Cons.IH [of "increment i m" "c + 1"] True show ?thesis by simp
  next
    case False
    with Cons.prems have "increment i m k = Some (Fin c)"
      by (simp add: increment_at)
    with Cons.IH [of "increment i m" c] False show ?thesis by simp
  qed
qed

lemma fold_increment_NaN:
  "m k = Some NaN \<Longrightarrow> fold increment issues m k = Some NaN"
proof (induction issues arbitrary: m)
  case Nil
  then show ?case by simp
next
  case (Cons i issues)
  from Cons.prems have "increment i m k = Some NaN"
    by (simp add: increment_at)
  with Cons.IH [of "increment i m"] show ?case by simp
qed

lemma fold_increment_missing:
  "m k = None \<Longrightarrow>
   fold increment issues m k = (if k \<in> status ` set issues then Some NaN else None)"
proof (induction issues arbitrary: m)
  case Nil
  then show ?case by simp
next
  case (Cons i issues)
  show ?case
  proof (cases "status i = k")
    case True
    with Cons.prems have "increment i m k = Some NaN"
      by (simp add: increment_at)
    with fold_increment_NaN [of "increment i m" k issues] True show ?thesis by auto
  next
    case False
    with Cons.prems have "increment i m k = None"
      by (simp add: increment_at)
    with Cons.IH [of "increment i m"] False show ?thesis by auto
  qed
qed

lemma getIssueCountsByStatus_fold:
  "snd (getIssueCountsByStatus clk s) = fold increment (snd (getAllIssues clk s)) initialCounts"
  by (simp add: getIssueCountsByStatus_def split: prod.splits)

lemma getAllIssues_seeded: "snd (getAllIssues clk seeded) = []"
  by (simp add: getAllIssues_def seeded_def)

lemma getAllIssues_holding:
  "issue_id issue = 1 \<Longrightarrow>
   snd (getAllIssues clk (holding issue)) = [issue\<lparr> slaStatus := calculateSlaStatus (clk 0) issue \<rparr>]"
  by (simp add: getAllIssues_def holding_def Let_def)

text \<open>
  Claim C8.  The claim fails for the status pending, which the initial result leaves out:
  the result has no entry for pending when no issue is pending, and the entry \<open>NaN\<close>
  when one is.  Every other status has an entry, the number of issues read with that
  status.
\<close>

theorem getIssueCountsByStatus_pending:
  "snd (getIssueCountsByStatus clk s) PENDING
     = (if PENDING \<in> status ` set (snd (getAllIssues clk s)) then Some NaN else None)
   \<and> (\<forall>k. k \<noteq> PENDING \<longrightarrow>
         snd (getIssueCountsByStatus clk s) k
           = Some (Fin (real (length (filter (\<lambda>i. status i = k) (snd (getAllIssues clk s)))))))"
proof (intro conjI allI impI)
  show "snd (getIssueCountsByStatus clk s) PENDING
     = (if PENDING \<in> status ` set (snd (getAllIssues clk s)) then Some NaN else None)"
    using fold_increment_missing [of initialCounts PENDING "snd (getAllIssues clk s)"]
    by (simp add: getIssueCountsByStatus_fold initialCounts_PENDING)
next
  fix k :: IssueStatus
  assume "k \<noteq> PENDING"
  then have "initialCounts k = Some (Fin 0)" by (rule initialCounts_other)
  with fold_increment_counted [of initialCounts k 0 "snd (getAllIssues clk s)"]
  show "snd (getIssueCountsByStatus clk s) k
           = Some (Fin (real (length (filter (\<lambda>i. status i = k) (snd (getAllIssues clk s))))))"
    by (simp add: getIssueCountsByStatus_fold)
qed

theorem getIssueCountsByStatus_pending_witness:
  "snd (getIssueCountsByStatus (stopped 5) seeded) PENDING = None
   \<and> snd (getIssueCountsByStatus (stopped 5) seeded) OPEN = Some (Fin 0)
   \<and> snd (getIssueCountsByStatus (stopped 5) (holding (ticket\<lparr> status := PENDING \<rparr>))) PENDING
       = Some NaN
   \<and> snd (getIssueCountsByStatus (stopped 5) (holding ticket)) OPEN = Some (Fin 1)"
proof -
  have i: "issue_id (ticket\<lparr> status := PENDING \<rparr>) = 1" "issue_id ticket = 1"
    "status ticket = OPEN"
    by (simp_all add: ticket_def)
  show ?thesis
    using getIssueCountsByStatus_pending [of "stopped 5" seeded]
      getIssueCountsByStatus_pending [of "stopped 5" "holding (ticket\<lparr> status := PENDING \<rparr>)"]
      getIssueCountsByStatus_pending [of "stopped 5" "holding ticket"]
    by (simp add: getAllIssues_seeded getAllIssues_holding i)
qed

end
